theory Spec2Isabelle
  imports Complex_Main "HOL-Library.Multiset"
begin

section \<open>Python strings\<close>

text \<open>
  A Python \<open>str\<close> is modelled as a \<open>string\<close> whose characters are the code points
  below 256, so that \<open>length\<close> is Python's \<open>len\<close>. The multiplication sign of the
  tab stop list (U+00D7) is the character \<open>0xD7\<close>.
\<close>

definition py_lower_char :: "char \<Rightarrow> char" where
  "py_lower_char c =
     (let n = (of_char c :: nat)
      in if (65 \<le> n \<and> n \<le> 90) \<or> (192 \<le> n \<and> n \<le> 222 \<and> n \<noteq> 215)
         then char_of (n + 32) else c)"

definition py_lower :: "string \<Rightarrow> string" where
  "py_lower s = map py_lower_char s"

definition py_isspace :: "char \<Rightarrow> bool" where
  "py_isspace c =
     (let n = (of_char c :: nat)
      in (9 \<le> n \<and> n \<le> 13) \<or> (28 \<le> n \<and> n \<le> 32) \<or> n = 133 \<or> n = 160)"

definition py_strip :: "string \<Rightarrow> string" where
  "py_strip s = rev (dropWhile py_isspace (rev (dropWhile py_isspace s)))"

definition startswith :: "string \<Rightarrow> string \<Rightarrow> bool" where
  "startswith s p = (take (length p) s = p)"

text \<open>\<open>py_in sub s\<close> is Python's \<open>sub in s\<close> on strings.\<close>

fun py_in :: "string \<Rightarrow> string \<Rightarrow> bool" where
  "py_in sub [] = (sub = [])"
| "py_in sub (c # cs) = (startswith (c # cs) sub \<or> py_in sub cs)"

text \<open>\<open>py_join sep xs\<close> is Python's \<open>sep.join(xs)\<close>.\<close>

fun py_join :: "string \<Rightarrow> string list \<Rightarrow> string" where
  "py_join sep [] = []"
| "py_join sep [x] = x"
| "py_join sep (x # y # ys) = x @ sep @ py_join sep (y # ys)"

section \<open>Data model\<close>

type_synonym box = "int \<times> int \<times> int \<times> int"

text \<open>
  A detection is the dict built in \<open>detector.py\<close> (lines 82-92 and 116-121): the keys
  \<open>text\<close>, \<open>bbox\<close> (a list \<open>[x1, y1, x2, y2]\<close> of ints), \<open>confidence\<close> and \<open>engine\<close>.
  Confidences are floats in the source; they are modelled as reals.
\<close>

record detection =
  det_text :: string
  det_bbox :: box
  det_confidence :: real
  det_engine :: string

definition bbox_x1 :: "detection \<Rightarrow> int" where
  "bbox_x1 d = (case det_bbox d of (x1, y1, x2, y2) \<Rightarrow> x1)"

definition bbox_y1 :: "detection \<Rightarrow> int" where
  "bbox_y1 d = (case det_bbox d of (x1, y1, x2, y2) \<Rightarrow> y1)"

text \<open>
  The calls the program makes to its collaborators, in the order it makes them: the two
  recognition engines, the image operations \<open>crop\<close> and \<open>save\<close>, the pixel source
  \<open>sct.grab\<close> and the automation lookup \<open>desktop.window\<close>.
\<close>

datatype 'img event =
    EasyOcrCall 'img
  | TesseractCall 'img
  | CropCall 'img box
  | SaveCall 'img string
  | GrabCall box
  | AxWindowCall int

datatype exn =
    CropError
  | SaveError
  | KeyError string
  | UnboundLocalError string

text \<open>An entry of the OS window registry, as \<open>win32gui\<close> and \<open>psutil\<close> answer for it.\<close>

record window =
  w_hwnd :: int
  w_visible :: bool
  w_title :: string
  w_rect :: "box option"              \<comment> \<open>\<open>GetWindowRect\<close>; \<open>None\<close> when it raises\<close>
  w_class :: "string option"          \<comment> \<open>\<open>GetClassName\<close>; \<open>None\<close> when it raises\<close>
  w_pid :: "int option"               \<comment> \<open>\<open>GetWindowThreadProcessId\<close>; \<open>None\<close> when it raises\<close>
  w_process :: "(string \<times> string) option"  \<comment> \<open>process name and path; \<open>None\<close> when \<open>psutil\<close> raises\<close>
  w_enabled :: bool

text \<open>
  A node of the accessibility tree. Reading \<open>element_info\<close>, \<open>rectangle()\<close>,
  \<open>is_enabled()\<close>, \<open>is_visible()\<close> or \<open>children()\<close> may raise: \<open>None\<close> (and
  \<open>ax_children_ok = False\<close>) stand for that. The info is the pair of \<open>control_type\<close>
  and \<open>name\<close>, each of which may be Python's \<open>None\<close>.
\<close>

datatype ax_node = AxNode
  (ax_info: "(string option \<times> string option) option")
  (ax_rect: "box option")
  (ax_enabled: "bool option")
  (ax_visible: "bool option")
  (ax_children_ok: bool)
  (ax_children: "ax_node list")

text \<open>
  Everything outside the program that it reads: the window registry in enumeration
  order, the pixel source, the image library, the two recognition engines with the
  detector's configuration, and the automation desktop. Each function answers \<open>None\<close>
  (or \<open>False\<close>) where the call raises.
\<close>

record 'img world =
  windows :: "window list"
  sct_grab :: "box \<Rightarrow> 'img option"       \<comment> \<open>monitor \<open>(left, upper, width, height)\<close>\<close>
  img_crop :: "'img \<Rightarrow> box \<Rightarrow> 'img option"
  img_save :: "'img \<Rightarrow> string \<Rightarrow> bool"
  img_size :: "'img \<Rightarrow> int \<times> int"
  ocr_engine :: string
  easyocr_reader :: "('img \<Rightarrow> ((real \<times> real) list \<times> string \<times> real) list option) option"
  tesseract_available :: bool
  image_to_data :: "'img \<Rightarrow> (string \<times> int option \<times> int \<times> int \<times> int \<times> int) list option"
  pywinauto_available :: bool
  desktop :: "(int \<Rightarrow> ax_node option) option"

section \<open>Content detector (\<open>detector.py\<close>)\<close>

text \<open>\<open>int(x)\<close> on a float truncates towards zero.\<close>

definition py_int :: "real \<Rightarrow> int" where
  "py_int r = (if 0 \<le> r then \<lfloor>r\<rfloor> else \<lceil>r\<rceil>)"

text \<open>
  The loop of \<open>detect_text_easyocr\<close> (lines 77-92). \<open>min\<close> of an empty point list
  raises, which is \<open>None\<close> here.
\<close>

fun easyocr_detections ::
  "((real \<times> real) list \<times> string \<times> real) list \<Rightarrow> detection list option" where
  "easyocr_detections [] = Some []"
| "easyocr_detections ((pts, t, c) # rs) =
     (case pts of
        [] \<Rightarrow> None
      | p # ps \<Rightarrow>
          (case easyocr_detections rs of
             None \<Rightarrow> None
           | Some ds \<Rightarrow>
               Some (\<lparr>det_text = t,
                      det_bbox = (py_int (fold min (map fst ps) (fst p)),
                                  py_int (fold min (map snd ps) (snd p)),
                                  py_int (fold max (map fst ps) (fst p)),
                                  py_int (fold max (map snd ps) (snd p))),
                      det_confidence = c,
                      det_engine = ''easyocr''\<rparr> # ds)))"

definition detect_text_easyocr :: "'img world \<Rightarrow> 'img \<Rightarrow> detection list \<times> 'img event list" where
  "detect_text_easyocr W img =
     (case easyocr_reader W of
        None \<Rightarrow> ([], [])
      | Some readtext \<Rightarrow>
          ((case readtext img of
              None \<Rightarrow> []
            | Some results \<Rightarrow>
                (case easyocr_detections results of None \<Rightarrow> [] | Some ds \<Rightarrow> ds)),
           [EasyOcrCall img]))"

text \<open>
  The loop of \<open>detect_text_tesseract\<close> (lines 110-121) over the rows of
  \<open>image_to_data\<close>: text, \<open>conf\<close> (\<open>None\<close> when \<open>int(conf)\<close> raises), left, top,
  width, height.
\<close>

fun tesseract_detections ::
  "(string \<times> int option \<times> int \<times> int \<times> int \<times> int) list \<Rightarrow> detection list option" where
  "tesseract_detections [] = Some []"
| "tesseract_detections ((t, conf, x, y, w, h) # rs) =
     (case conf of
        None \<Rightarrow> None
      | Some c \<Rightarrow>
          (case tesseract_detections rs of
             None \<Rightarrow> None
           | Some ds \<Rightarrow>
               Some (if py_strip t \<noteq> [] \<and> c > 0
                     then \<lparr>det_text = py_strip t,
                           det_bbox = (x, y, x + w, y + h),
                           det_confidence = of_int c / 100,
                           det_engine = ''tesseract''\<rparr> # ds
                     else ds)))"

definition detect_text_tesseract :: "'img world \<Rightarrow> 'img \<Rightarrow> detection list \<times> 'img event list" where
  "detect_text_tesseract W img =
     (if \<not> tesseract_available W then ([], [])
      else ((case image_to_data W img of
               None \<Rightarrow> []
             | Some rows \<Rightarrow>
                 (case tesseract_detections rows of None \<Rightarrow> [] | Some ds \<Rightarrow> ds)),
            [TesseractCall img]))"

definition detect_text :: "'img world \<Rightarrow> 'img \<Rightarrow> detection list \<times> 'img event list" where
  "detect_text W img =
     (if ocr_engine W = ''easyocr'' \<or> (ocr_engine W = ''both'' \<and> easyocr_reader W \<noteq> None)
      then detect_text_easyocr W img
      else if ocr_engine W = ''tesseract'' \<or> ocr_engine W = ''both''
      then detect_text_tesseract W img
      else ([], []))"

text \<open>
  The loop of \<open>detect_text_in_region\<close> (lines 145-149). Every detection is a dict the
  engine wrappers have just built, with a bbox list of its own, so the in-place
  \<open>+=\<close> on one detection touches no other and the loop is a map.
\<close>

fun adjust_coordinates :: "int \<Rightarrow> int \<Rightarrow> detection list \<Rightarrow> detection list" where
  "adjust_coordinates x1 y1 [] = []"
| "adjust_coordinates x1 y1 (det # dets) =
     (case det_bbox det of
        (a, b, c, d) \<Rightarrow> det\<lparr>det_bbox := (a + x1, b + y1, c + x1, d + y1)\<rparr>)
     # adjust_coordinates x1 y1 dets"

definition detect_text_in_region ::
  "'img world \<Rightarrow> 'img \<Rightarrow> box \<Rightarrow> (exn + detection list) \<times> 'img event list" where
  "detect_text_in_region W img bbox =
     (case bbox of
        (x1, y1, x2, y2) \<Rightarrow>
          (case img_crop W img (x1, y1, x2, y2) of
             None \<Rightarrow> (Inl CropError, [CropCall img (x1, y1, x2, y2)])
           | Some region \<Rightarrow>
               (case detect_text W region of
                  (detections, tr) \<Rightarrow>
                    (Inr (adjust_coordinates x1 y1 detections),
                     CropCall img (x1, y1, x2, y2) # tr))))"

definition extract_visible_text :: "'img world \<Rightarrow> 'img \<Rightarrow> real \<Rightarrow> string \<times> 'img event list" where
  "extract_visible_text W img confidence_threshold =
     (case detect_text W img of
        (detections, tr) \<Rightarrow>
          (let filtered = filter (\<lambda>d. det_confidence d \<ge> confidence_threshold) detections;
               filtered = sort_key bbox_y1 filtered
           in (py_join '' '' (map det_text filtered), tr)))"

section \<open>Window catalog (\<open>capture.py\<close>)\<close>

text \<open>The dict \<open>get_all_windows\<close> builds for a window (lines 30-35).\<close>

record window_entry =
  we_hwnd :: int
  we_title :: string
  we_bbox :: box
  we_class :: string

text \<open>
  \<open>get_all_windows\<close>: the callback keeps a window that is visible and has a title;
  when \<open>GetWindowRect\<close> or \<open>GetClassName\<close> raises, the \<open>except\<close> drops the window.
\<close>

fun get_all_windows_callback :: "window list \<Rightarrow> window_entry list" where
  "get_all_windows_callback [] = []"
| "get_all_windows_callback (w # ws) =
     (if w_visible w \<and> w_title w \<noteq> [] then
        (case w_rect w of
           None \<Rightarrow> get_all_windows_callback ws
         | Some rect \<Rightarrow>
             (case w_class w of
                None \<Rightarrow> get_all_windows_callback ws
              | Some cls \<Rightarrow>
                  \<lparr>we_hwnd = w_hwnd w, we_title = w_title w, we_bbox = rect, we_class = cls\<rparr>
                  # get_all_windows_callback ws))
      else get_all_windows_callback ws)"

definition get_all_windows :: "'img world \<Rightarrow> window_entry list" where
  "get_all_windows W = get_all_windows_callback (windows W)"

fun find_window_callback :: "string \<Rightarrow> window list \<Rightarrow> int list" where
  "find_window_callback title_substring [] = []"
| "find_window_callback title_substring (w # ws) =
     (if w_visible w \<and> py_in title_substring (py_lower (w_title w))
      then w_hwnd w # find_window_callback title_substring ws
      else find_window_callback title_substring ws)"

definition find_window :: "'img world \<Rightarrow> string \<Rightarrow> int option" where
  "find_window W title_substring =
     (case find_window_callback (py_lower title_substring) (windows W) of
        [] \<Rightarrow> None
      | hwnd # _ \<Rightarrow> Some hwnd)"

text \<open>The registry's answer for a handle: the first enumerated window that has it.\<close>

definition lookup_window :: "'img world \<Rightarrow> int \<Rightarrow> window option" where
  "lookup_window W hwnd = find (\<lambda>w. w_hwnd w = hwnd) (windows W)"

definition GetWindowRect :: "'img world \<Rightarrow> int \<Rightarrow> box option" where
  "GetWindowRect W hwnd = (case lookup_window W hwnd of None \<Rightarrow> None | Some w \<Rightarrow> w_rect w)"

definition capture_window :: "'img world \<Rightarrow> int \<Rightarrow> 'img option \<times> 'img event list" where
  "capture_window W hwnd =
     (case GetWindowRect W hwnd of
        None \<Rightarrow> (None, [])
      | Some (left, upper, right, bottom) \<Rightarrow>
          (let width = right - left; height = bottom - upper
           in if width \<le> 0 \<or> height \<le> 0 then (None, [])
              else (sct_grab W (left, upper, width, height),
                    [GrabCall (left, upper, width, height)])))"

section \<open>Accessibility inspector (\<open>ui_inspector.py\<close>)\<close>

record window_info =
  wi_hwnd :: int
  wi_title :: string
  wi_class :: string
  wi_bbox :: box
  wi_pid :: int
  wi_process_name :: string
  wi_exe_path :: string
  wi_visible :: bool
  wi_enabled :: bool

text \<open>\<open>InfoError\<close> is the dict \<open>{'error': str(e)}\<close> of line 64.\<close>

datatype info_result = InfoError | Info window_info

definition get_window_info :: "'img world \<Rightarrow> int \<Rightarrow> info_result" where
  "get_window_info W hwnd =
     (case lookup_window W hwnd of
        None \<Rightarrow> InfoError
      | Some w \<Rightarrow>
          (case w_class w of
             None \<Rightarrow> InfoError
           | Some class_name \<Rightarrow>
               (case w_rect w of
                  None \<Rightarrow> InfoError
                | Some rect \<Rightarrow>
                    (case w_pid w of
                       None \<Rightarrow> InfoError
                     | Some pid \<Rightarrow>
                         (case (case w_process w of
                                  None \<Rightarrow> (''Unknown'', ''Unknown'')
                                | Some p \<Rightarrow> p) of
                            (process_name, exe_path) \<Rightarrow>
                              Info \<lparr>wi_hwnd = hwnd, wi_title = w_title w, wi_class = class_name,
                                    wi_bbox = rect, wi_pid = pid,
                                    wi_process_name = process_name, wi_exe_path = exe_path,
                                    wi_visible = w_visible w, wi_enabled = w_enabled w\<rparr>)))))"

record ui_element =
  ue_name :: "string option"
  ue_type :: "string option"
  ue_bbox :: box
  ue_depth :: nat
  ue_enabled :: bool
  ue_visible :: bool

text \<open>
  \<open>traverse\<close> of \<open>get_ui_tree\<close> (lines 77-113), returning what it appends to
  \<open>elements\<close>. An exception while the node's dict is built leaves the node and its
  subtree out.
\<close>

fun traverse :: "nat \<Rightarrow> ax_node \<Rightarrow> nat \<Rightarrow> ui_element list" where
  "traverse max_depth (AxNode info rect en vis ok children) depth =
     (if depth > max_depth then []
      else
        (case info of
           None \<Rightarrow> []
         | Some (control_type, name) \<Rightarrow>
             (let bbox = (case rect of None \<Rightarrow> (0, 0, 0, 0) | Some r \<Rightarrow> r);
                  below = (if ok then concat (map (\<lambda>child. traverse max_depth child (depth + 1)) children)
                           else [])
              in if (name \<noteq> None \<and> name \<noteq> Some []) \<or> control_type \<noteq> Some ''Unknown''
                 then (case en of
                         None \<Rightarrow> []
                       | Some enabled \<Rightarrow>
                           (case vis of
                              None \<Rightarrow> []
                            | Some visible \<Rightarrow>
                                \<lparr>ue_name = name, ue_type = control_type, ue_bbox = bbox,
                                 ue_depth = depth, ue_enabled = enabled, ue_visible = visible\<rparr>
                                # below))
                 else below)))"

definition get_ui_tree :: "'img world \<Rightarrow> int \<Rightarrow> nat \<Rightarrow> ui_element list \<times> 'img event list" where
  "get_ui_tree W hwnd max_depth =
     (if \<not> pywinauto_available W then ([], [])
      else
        (case desktop W of
           None \<Rightarrow> ([], [])
         | Some window_of \<Rightarrow>
             ((case window_of hwnd of
                 None \<Rightarrow> []
               | Some window \<Rightarrow> traverse max_depth window 0),
              [AxWindowCall hwnd])))"

text \<open>
  \<open>search_tabs\<close> of \<open>get_browser_tabs\<close> (lines 190-213); the list \<open>tabs\<close> of the
  enclosing function is passed in and returned.
\<close>

fun search_tabs :: "ax_node \<Rightarrow> nat \<Rightarrow> string list \<Rightarrow> string list" where
  "search_tabs (AxNode info rect en vis ok children) depth tabs =
     (if depth > 10 then tabs
      else
        (case info of
           None \<Rightarrow> tabs
         | Some (None, name) \<Rightarrow> tabs
         | Some (Some ct, name) \<Rightarrow>
             (let control_type = py_lower ct;
                  tabs = (case name of
                            None \<Rightarrow> tabs
                          | Some n \<Rightarrow>
                              if py_in ''tabitem'' control_type \<and> n \<noteq> [] \<and>
                                 n \<notin> set tabs \<and> length n > 3 \<and>
                                 \<not> startswith n ''Active View'' \<and>
                                 \<not> startswith n ''Tab content''
                              then tabs @ [n] else tabs)
              in if ok then fold (\<lambda>child acc. search_tabs child (depth + 1) acc) children tabs
                 else tabs)))"

text \<open>Method 1 of \<open>get_browser_tabs\<close> (lines 186-218).\<close>

definition ui_automation_tabs :: "'img world \<Rightarrow> int \<Rightarrow> string list \<times> 'img event list" where
  "ui_automation_tabs W hwnd =
     (if \<not> pywinauto_available W then ([], [])
      else
        (case desktop W of
           None \<Rightarrow> ([], [])
         | Some window_of \<Rightarrow>
             ((case window_of hwnd of
                 None \<Rightarrow> []
               | Some window \<Rightarrow> search_tabs window 0 []),
              [AxWindowCall hwnd])))"

definition USE_OCR :: "string list" where
  "USE_OCR = [''__USE_OCR__'']"

definition get_browser_tabs ::
  "'img world \<Rightarrow> int \<Rightarrow> 'img option \<Rightarrow> string list \<times> 'img event list" where
  "get_browser_tabs W hwnd screenshot =
     (case ui_automation_tabs W hwnd of
        (tabs, tr) \<Rightarrow>
          (case screenshot of
             None \<Rightarrow> (tabs, tr)
           | Some shot \<Rightarrow>
               if length tabs = 0 then
                 (case GetWindowRect W hwnd of
                    None \<Rightarrow> (tabs, tr)
                  | Some (left, upper, right, bottom) \<Rightarrow>
                      (let width = right - left
                       in (case img_crop W shot (0, 0, width, 80) of
                             None \<Rightarrow> (tabs, tr @ [CropCall shot (0, 0, width, 80)])
                           | Some tab_region \<Rightarrow>
                               (USE_OCR, tr @ [CropCall shot (0, 0, width, 80)]))))
               else (tabs, tr)))"

section \<open>Screen analyzer (\<open>analyzer.py\<close>)\<close>

subsection \<open>Tab extraction by OCR\<close>

text \<open>
  Lines 35-36: the window's width. When \<open>get_window_info\<close> answers the error dict,
  the subscript \<open>['bbox']\<close> raises.
\<close>

definition window_width :: "'img world \<Rightarrow> int \<Rightarrow> exn + int" where
  "window_width W hwnd =
     (case get_window_info W hwnd of
        InfoError \<Rightarrow> Inl (KeyError ''bbox'')
      | Info info \<Rightarrow> (case wi_bbox info of (x0, y0, x2, y2) \<Rightarrow> Inr (x2 - x0)))"

text \<open>
  The steps both stages run on their region (lines 40-51 and 76-83): crop, save the
  crop when \<open>debug\<close> is set, detect, sort by the left edge.
\<close>

definition ocr_region ::
  "'img world \<Rightarrow> 'img \<Rightarrow> box \<Rightarrow> bool \<Rightarrow> string \<Rightarrow> (exn + detection list) \<times> 'img event list" where
  "ocr_region W screenshot region debug path =
     (case img_crop W screenshot region of
        None \<Rightarrow> (Inl CropError, [CropCall screenshot region])
      | Some tab_region \<Rightarrow>
          if debug \<and> \<not> img_save W tab_region path
          then (Inl SaveError, [CropCall screenshot region, SaveCall tab_region path])
          else
            (case detect_text W tab_region of
               (detections, tr) \<Rightarrow>
                 (Inr (sort_key bbox_x1 detections),
                  CropCall screenshot region
                  # (if debug then [SaveCall tab_region path] else []) @ tr)))"

definition stop_list :: "string list" where
  "stop_list = [[CHR 0xD7], ''+'', ''...'', ''New Tab'', ''Google'', ''Chrome'']"

text \<open>
  The loop of lines 56-72. Each accepted text is returned with the \<open>x_pos\<close> it was
  accepted at, which the source keeps in \<open>last_x\<close>; \<open>tabs\<close> is the list of the texts.
\<close>

fun stage_b_accept :: "detection list \<Rightarrow> int \<Rightarrow> (string \<times> int) list" where
  "stage_b_accept [] last_x = []"
| "stage_b_accept (det # dets) last_x =
     (let text = py_strip (det_text det); x_pos = bbox_x1 det
      in if text \<noteq> [] \<and> 2 < length text \<and> length text < 60 \<and>
            x_pos - last_x > 30 \<and>
            text \<notin> set stop_list \<and>
            \<not> startswith text ''http'' \<and>
            \<not> startswith text ''www''
         then (text, x_pos) # stage_b_accept dets x_pos
         else stage_b_accept dets last_x)"

text \<open>The loop of lines 85-88.\<close>

fun stage_c_accept :: "detection list \<Rightarrow> string list" where
  "stage_c_accept [] = []"
| "stage_c_accept (det # dets) =
     (let text = py_strip (det_text det)
      in if text \<noteq> [] \<and> 2 < length text \<and> length text < 60
         then text # stage_c_accept dets
         else stage_c_accept dets)"

definition stage_b_region :: "int \<Rightarrow> box" where
  "stage_b_region width = (50, 0, width - 200, 40)"

definition stage_c_region :: "int \<Rightarrow> box" where
  "stage_c_region width = (80, 5, width - 150, 35)"

text \<open>Lines 35-72: the candidates Stage B accepts, or the exception that ends it.\<close>

definition stage_b ::
  "'img world \<Rightarrow> int \<Rightarrow> 'img \<Rightarrow> bool \<Rightarrow> (exn + (string \<times> int) list) \<times> 'img event list" where
  "stage_b W hwnd screenshot debug =
     (case window_width W hwnd of
        Inl e \<Rightarrow> (Inl e, [])
      | Inr width \<Rightarrow>
          (case ocr_region W screenshot (stage_b_region width) debug ''debug_tab_region.png'' of
             (Inl e, tr) \<Rightarrow> (Inl e, tr)
           | (Inr detections, tr) \<Rightarrow> (Inr (stage_b_accept detections (- 100)), tr)))"

text \<open>Lines 76-88.\<close>

definition stage_c ::
  "'img world \<Rightarrow> int \<Rightarrow> 'img \<Rightarrow> bool \<Rightarrow> (exn + string list) \<times> 'img event list" where
  "stage_c W width screenshot debug =
     (case ocr_region W screenshot (stage_c_region width) debug ''debug_tab_region_alt.png'' of
        (Inl e, tr) \<Rightarrow> (Inl e, tr)
      | (Inr detections, tr) \<Rightarrow> (Inr (stage_c_accept detections), tr))"

text \<open>\<open>_extract_tabs_with_ocr\<close>: any exception is caught and gives the empty list.\<close>

definition extract_tabs_with_ocr ::
  "'img world \<Rightarrow> int \<Rightarrow> 'img \<Rightarrow> bool \<Rightarrow> string list \<times> 'img event list" where
  "extract_tabs_with_ocr W hwnd screenshot debug =
     (case stage_b W hwnd screenshot debug of
        (Inl e, tr) \<Rightarrow> ([], tr)
      | (Inr accepted, tr) \<Rightarrow>
          (let tabs = map fst accepted
           in if length tabs = 0 then
                (case window_width W hwnd of
                   Inl e \<Rightarrow> ([], tr)
                 | Inr width \<Rightarrow>
                     (case stage_c W width screenshot debug of
                        (Inl e, tr') \<Rightarrow> ([], tr @ tr')
                      | (Inr tabs', tr') \<Rightarrow> (take 15 tabs', tr @ tr')))
              else (take 15 tabs, tr)))"

subsection \<open>Window analysis\<close>

text \<open>The result dict of \<open>analyze_window\<close>; an absent key is \<open>None\<close>.\<close>

record 'img analysis =
  r_error :: "string option"
  r_available_windows :: "string list option"
  r_window_info :: "info_result option"
  r_timestamp :: "real option"
  r_screenshot :: "'img option"
  r_screenshot_size :: "(int \<times> int) option"
  r_text_detections :: "detection list option"
  r_extracted_text :: "string option"
  r_screenshot_error :: "string option"
  r_ui_elements :: "ui_element list option"
  r_ui_element_count :: "nat option"
  r_browser_tabs :: "string list option"

definition empty_dict :: "'img analysis" where
  "empty_dict =
     \<lparr>r_error = None, r_available_windows = None, r_window_info = None, r_timestamp = None,
      r_screenshot = None, r_screenshot_size = None, r_text_detections = None,
      r_extracted_text = None, r_screenshot_error = None, r_ui_elements = None,
      r_ui_element_count = None, r_browser_tabs = None\<rparr>"

text \<open>
  Lines 138-150. The first component is the variable \<open>screenshot\<close>: \<open>None\<close> while
  it is unbound (no capture requested), otherwise what \<open>capture_window\<close> returned.
\<close>

definition capture_step ::
  "'img world \<Rightarrow> int \<Rightarrow> bool \<Rightarrow> bool \<Rightarrow> 'img analysis \<Rightarrow>
   ('img option option \<times> 'img analysis) \<times> 'img event list" where
  "capture_step W hwnd capture_screenshot detect_text_flag result =
     (if capture_screenshot then
        (case capture_window W hwnd of
           (None, tr) \<Rightarrow>
             ((Some None, result\<lparr>r_screenshot_error := Some ''Failed to capture window''\<rparr>), tr)
         | (Some screenshot, tr) \<Rightarrow>
             (let result = result\<lparr>r_screenshot := Some screenshot,
                                  r_screenshot_size := Some (img_size W screenshot)\<rparr>
              in if detect_text_flag then
                   (case detect_text W screenshot of
                      (text_detections, tr') \<Rightarrow>
                        ((Some (Some screenshot),
                          result\<lparr>r_text_detections := Some text_detections,
                                 r_extracted_text :=
                                   Some (py_join '' '' (map det_text text_detections))\<rparr>),
                         tr @ tr'))
                 else ((Some (Some screenshot), result), tr)))
      else ((None, result), []))"

text \<open>Lines 153-156.\<close>

definition ui_tree_step ::
  "'img world \<Rightarrow> int \<Rightarrow> bool \<Rightarrow> 'img analysis \<Rightarrow> 'img analysis \<times> 'img event list" where
  "ui_tree_step W hwnd get_ui_tree_flag result =
     (if get_ui_tree_flag then
        (case get_ui_tree W hwnd 5 of
           (ui_elements, tr) \<Rightarrow>
             (result\<lparr>r_ui_elements := Some ui_elements,
                     r_ui_element_count := Some (length ui_elements)\<rparr>, tr))
      else (result, []))"

text \<open>
  Lines 159-166. Reading \<open>screenshot\<close> on line 162 while it is unbound raises; the
  \<open>and\<close> reads it only when the tabs are the OCR flag.
\<close>

definition tabs_step ::
  "'img world \<Rightarrow> int \<Rightarrow> bool \<Rightarrow> 'img option option \<Rightarrow> 'img analysis \<Rightarrow>
   (exn + 'img analysis) \<times> 'img event list" where
  "tabs_step W hwnd capture_screenshot screenshot result =
     (case get_browser_tabs W hwnd
             (if capture_screenshot then (case screenshot of None \<Rightarrow> None | Some s \<Rightarrow> s)
              else None) of
        (tabs, tr) \<Rightarrow>
          (if tabs = USE_OCR then
             (case screenshot of
                None \<Rightarrow> (Inl (UnboundLocalError ''screenshot''), tr)
              | Some None \<Rightarrow> (Inr (result\<lparr>r_browser_tabs := Some tabs\<rparr>), tr)
              | Some (Some shot) \<Rightarrow>
                  (case extract_tabs_with_ocr W hwnd shot True of
                     (tabs', tr') \<Rightarrow>
                       (Inr (if tabs' \<noteq> [] then result\<lparr>r_browser_tabs := Some tabs'\<rparr>
                             else result),
                        tr @ tr')))
           else (Inr (if tabs \<noteq> [] then result\<lparr>r_browser_tabs := Some tabs\<rparr> else result),
                 tr)))"

text \<open>
  \<open>analyze_window\<close>; \<open>now\<close> is the reading of \<open>time.time()\<close> on line 134. The test
  \<open>not hwnd\<close> also holds for the handle 0.
\<close>

definition analyze_window ::
  "'img world \<Rightarrow> real \<Rightarrow> string \<Rightarrow> bool \<Rightarrow> bool \<Rightarrow> bool \<Rightarrow>
   (exn + 'img analysis) \<times> 'img event list" where
  "analyze_window W now window_identifier capture_screenshot detect_text_flag get_ui_tree_flag =
     (let hwnd = find_window W window_identifier
      in if hwnd = None \<or> hwnd = Some 0 then
           (Inr (empty_dict
                  \<lparr>r_error := Some (''Window '' @ [CHR 0x27] @ window_identifier @ [CHR 0x27]
                                    @ '' not found''),
                   r_available_windows := Some (map we_title (get_all_windows W))\<rparr>),
            [])
         else
           (let hwnd = the hwnd;
                window_info = get_window_info W hwnd;
                result = empty_dict\<lparr>r_window_info := Some window_info,
                                    r_timestamp := Some now\<rparr>
            in (case capture_step W hwnd capture_screenshot detect_text_flag result of
                  ((screenshot, result), tr1) \<Rightarrow>
                    (case ui_tree_step W hwnd get_ui_tree_flag result of
                       (result, tr2) \<Rightarrow>
                         (case tabs_step W hwnd capture_screenshot screenshot result of
                            (res, tr3) \<Rightarrow> (res, tr1 @ tr2 @ tr3))))))"

record summary =
  s_window_name :: string
  s_application :: string
  s_visible_text :: string
  s_browser_tabs :: "string list"
  s_is_active :: bool
  s_position :: box

text \<open>
  \<open>get_window_summary\<close> returns the error dict of \<open>analyze_window\<close> as it is, or the
  summary; the subscripts of lines 254-259 raise on the error dict of
  \<open>get_window_info\<close>.
\<close>

datatype 'img summary_result = NotFound "'img analysis" | Summary summary

definition get_window_summary ::
  "'img world \<Rightarrow> real \<Rightarrow> string \<Rightarrow> (exn + 'img summary_result) \<times> 'img event list" where
  "get_window_summary W now window_identifier =
     (case analyze_window W now window_identifier True True False of
        (Inl e, tr) \<Rightarrow> (Inl e, tr)
      | (Inr result, tr) \<Rightarrow>
          if r_error result \<noteq> None then (Inr (NotFound result), tr)
          else
            (case r_window_info result of
               None \<Rightarrow> (Inl (KeyError ''window_info''), tr)
             | Some InfoError \<Rightarrow> (Inl (KeyError ''title''), tr)
             | Some (Info window_info) \<Rightarrow>
                 (Inr (Summary
                        \<lparr>s_window_name = wi_title window_info,
                         s_application = wi_process_name window_info,
                         s_visible_text =
                           (case r_extracted_text result of None \<Rightarrow> [] | Some t \<Rightarrow> t),
                         s_browser_tabs =
                           (case r_browser_tabs result of None \<Rightarrow> [] | Some t \<Rightarrow> t),
                         s_is_active = wi_enabled window_info,
                         s_position = wi_bbox window_info\<rparr>),
                  tr)))"

section \<open>Example worlds\<close>

text \<open>
  Images are numbered. \<open>demo_detector\<close> is configured for both engines; its EasyOCR
  reader finds three texts, its Tesseract one.
\<close>

definition demo_detector :: "nat world" where
  "demo_detector =
     \<lparr>windows = [],
      sct_grab = (\<lambda>m. None),
      img_crop = (\<lambda>i b. Some (Suc i)),
      img_save = (\<lambda>i p. True),
      img_size = (\<lambda>i. (0, 0)),
      ocr_engine = ''both'',
      easyocr_reader = Some (\<lambda>i. Some
         [([(10, 50), (60, 50), (60, 70), (10, 70)], ''world'', 9 / 10),
          ([(10, 20), (60, 20), (60, 40), (10, 40)], ''hello'', 8 / 10),
          ([(70, 20), (90, 20), (90, 40), (70, 40)], ''noise'', 1 / 10)]),
      tesseract_available = True,
      image_to_data = (\<lambda>i. Some [(''Docs '', Some 91, 5, 6, 30, 10)]),
      pywinauto_available = False,
      desktop = None\<rparr>"

definition demo_tesseract_only :: "nat world" where
  "demo_tesseract_only = demo_detector\<lparr>easyocr_reader := None\<rparr>"

text \<open>
  \<open>demo_desktop\<close> has a browser window (handle 101), an editor (102) and a window
  of no extent (103). The accessibility tree of every window is a frame with one pane
  and no tab item. A crop of image \<open>i\<close> is image \<open>i + 2\<close> for the Stage B region,
  \<open>i + 3\<close> for the Stage C region and \<open>i + 4\<close> otherwise; the reader finds two tabs
  and a repeated hit on image 2, one text on image 13 and nothing elsewhere.
\<close>

definition demo_tree :: ax_node where
  "demo_tree =
     AxNode (Some (Some ''Window'', Some ''Docs - Browser'')) (Some (0, 0, 1200, 800))
       (Some True) (Some True) True
       [AxNode (Some (Some ''Pane'', Some [])) (Some (0, 0, 1200, 80))
          (Some True) (Some True) True []]"

definition demo_desktop :: "nat world" where
  "demo_desktop =
     \<lparr>windows =
        [\<lparr>w_hwnd = 101, w_visible = True, w_title = ''Docs - Browser'',
          w_rect = Some (0, 0, 1200, 800), w_class = Some ''Chrome_WidgetWin_1'',
          w_pid = Some 4242, w_process = Some (''chrome.exe'', ''C:/chrome.exe''),
          w_enabled = True\<rparr>,
         \<lparr>w_hwnd = 102, w_visible = True, w_title = ''Untitled - Notepad'',
          w_rect = Some (100, 100, 500, 400), w_class = Some ''Notepad'',
          w_pid = Some 77, w_process = None, w_enabled = True\<rparr>,
         \<lparr>w_hwnd = 103, w_visible = True, w_title = ''Minimized App'',
          w_rect = Some (0, 0, 0, 0), w_class = Some ''App'',
          w_pid = Some 78, w_process = Some (''app.exe'', ''C:/app.exe''),
          w_enabled = True\<rparr>],
      sct_grab = (\<lambda>m. Some 0),
      img_crop = (\<lambda>i b. case b of (x1, y1, x2, y2) \<Rightarrow>
                    Some (if x1 = 50 then i + 2 else if x1 = 80 then i + 3 else i + 4)),
      img_save = (\<lambda>i p. True),
      img_size = (\<lambda>i. (1200, 800)),
      ocr_engine = ''easyocr'',
      easyocr_reader = Some (\<lambda>i.
         if i = 2 then Some
           [([(200, 10), (280, 10), (280, 30), (200, 30)], ''Calendar'', 9 / 10),
            ([(10, 10), (60, 10), (60, 30), (10, 30)], '' Inbox'', 9 / 10),
            ([(25, 10), (75, 10), (75, 30), (25, 30)], ''Inbox'', 7 / 10)]
         else if i = 13 then Some
           [([(5, 5), (70, 5), (70, 25), (5, 25)], ''Settings'', 6 / 10)]
         else Some []),
      tesseract_available = False,
      image_to_data = (\<lambda>i. None),
      pywinauto_available = True,
      desktop = Some (\<lambda>h. Some demo_tree)\<rparr>"

section \<open>Properties of the content detector\<close>

lemma adjust_coordinates_length: "length (adjust_coordinates x1 y1 ds) = length ds"
  by (induction ds) auto

lemma adjust_coordinates_nth:
  "i < length ds \<Longrightarrow>
   adjust_coordinates x1 y1 ds ! i =
     (case det_bbox (ds ! i) of
        (a, b, c, d) \<Rightarrow> (ds ! i)\<lparr>det_bbox := (a + x1, b + y1, c + x1, d + y1)\<rparr>)"
  by (induction ds arbitrary: i) (auto simp: nth_Cons split: nat.splits)

lemma adjust_coordinates_map:
  "adjust_coordinates x1 y1 ds =
     map (\<lambda>det. case det_bbox det of
        (a, b, c, d) \<Rightarrow> det\<lparr>det_bbox := (a + x1, b + y1, c + x1, d + y1)\<rparr>) ds"
  by (induction ds) auto

lemma detect_text_in_region_Inr:
  assumes "fst (detect_text_in_region W img (x1, y1, x2, y2)) = Inr ds"
  shows "\<exists>region. img_crop W img (x1, y1, x2, y2) = Some region \<and>
           ds = adjust_coordinates x1 y1 (fst (detect_text W region))"
  using assms by (auto simp: detect_text_in_region_def split: option.splits prod.splits)

lemma demo_detect_text:
  "detect_text demo_detector i =
     ([\<lparr>det_text = ''world'', det_bbox = (10, 50, 60, 70), det_confidence = 9 / 10,
        det_engine = ''easyocr''\<rparr>,
       \<lparr>det_text = ''hello'', det_bbox = (10, 20, 60, 40), det_confidence = 8 / 10,
        det_engine = ''easyocr''\<rparr>,
       \<lparr>det_text = ''noise'', det_bbox = (70, 20, 90, 40), det_confidence = 1 / 10,
        det_engine = ''easyocr''\<rparr>],
      [EasyOcrCall i])"
  by (simp add: detect_text_def detect_text_easyocr_def demo_detector_def py_int_def)

lemma demo_detect_text_in_region:
  "fst (detect_text_in_region demo_detector 0 (100, 200, 300, 400)) =
     Inr [\<lparr>det_text = ''world'', det_bbox = (110, 250, 160, 270), det_confidence = 9 / 10,
           det_engine = ''easyocr''\<rparr>,
          \<lparr>det_text = ''hello'', det_bbox = (110, 220, 160, 240), det_confidence = 8 / 10,
           det_engine = ''easyocr''\<rparr>,
          \<lparr>det_text = ''noise'', det_bbox = (170, 220, 190, 240), det_confidence = 1 / 10,
           det_engine = ''easyocr''\<rparr>]"
proof -
  have "img_crop demo_detector 0 (100, 200, 300, 400) = Some 1"
    by (simp add: demo_detector_def)
  then show ?thesis
    by (simp add: detect_text_in_region_def demo_detect_text)
qed

text \<open>
  C1. Every detection that \<open>detect_text_in_region\<close> returns has the bounding box of the
  detection at the same position in the result of \<open>detect_text\<close> on the cropped
  region, with \<open>x1\<close> of the box added to both x-coordinates and \<open>y1\<close> to both
  y-coordinates, once.
\<close>

theorem C1_region_remap:
  assumes "fst (detect_text_in_region W img (x1, y1, x2, y2)) = Inr ds"
  shows "\<exists>region raw. img_crop W img (x1, y1, x2, y2) = Some region \<and>
           raw = fst (detect_text W region) \<and> length ds = length raw \<and>
           (\<forall>i < length ds. \<forall>a b c d. det_bbox (raw ! i) = (a, b, c, d) \<longrightarrow>
              det_bbox (ds ! i) = (a + x1, b + y1, c + x1, d + y1))"
proof -
  from detect_text_in_region_Inr [OF assms] obtain region where
    r: "img_crop W img (x1, y1, x2, y2) = Some region" and
    d: "ds = adjust_coordinates x1 y1 (fst (detect_text W region))" by blast
  show ?thesis
    using r d by (auto simp: adjust_coordinates_length adjust_coordinates_nth)
qed

theorem C1_region_remap_witness:
  "\<exists>ds region raw.
     fst (detect_text_in_region demo_detector 0 (100, 200, 300, 400)) = Inr ds \<and>
     img_crop demo_detector 0 (100, 200, 300, 400) = Some region \<and>
     raw = fst (detect_text demo_detector region) \<and> length ds = length raw \<and>
     (\<forall>i < length ds. \<forall>a b c d. det_bbox (raw ! i) = (a, b, c, d) \<longrightarrow>
        det_bbox (ds ! i) = (a + 100, b + 200, c + 100, d + 200))"
  using C1_region_remap [OF demo_detect_text_in_region] demo_detect_text_in_region by blast

text \<open>
  C10. \<open>detect_text_in_region\<close> returns as many detections as \<open>detect_text\<close> finds on
  the cropped region, in the same order and with the same text, confidence and engine;
  only the bounding boxes differ.
\<close>

theorem C10_region_frame:
  assumes "fst (detect_text_in_region W img (x1, y1, x2, y2)) = Inr ds"
  shows "\<exists>region raw. img_crop W img (x1, y1, x2, y2) = Some region \<and>
           raw = fst (detect_text W region) \<and> length ds = length raw \<and>
           map det_text ds = map det_text raw \<and>
           map det_confidence ds = map det_confidence raw \<and>
           map det_engine ds = map det_engine raw"
proof -
  from detect_text_in_region_Inr [OF assms] obtain region where
    r: "img_crop W img (x1, y1, x2, y2) = Some region" and
    d: "ds = adjust_coordinates x1 y1 (fst (detect_text W region))" by blast
  show ?thesis
    using r d by (auto simp: adjust_coordinates_map split: prod.splits)
qed

theorem C10_region_frame_witness:
  "\<exists>ds region raw.
     fst (detect_text_in_region demo_detector 0 (100, 200, 300, 400)) = Inr ds \<and>
     img_crop demo_detector 0 (100, 200, 300, 400) = Some region \<and>
     raw = fst (detect_text demo_detector region) \<and> length ds = length raw \<and>
     map det_text ds = map det_text raw \<and>
     map det_confidence ds = map det_confidence raw \<and>
     map det_engine ds = map det_engine raw"
  using C10_region_frame [OF demo_detect_text_in_region] demo_detect_text_in_region by blast

lemma detect_text_both_reader:
  "ocr_engine W = ''both'' \<Longrightarrow> easyocr_reader W = Some r \<Longrightarrow>
   detect_text W img = detect_text_easyocr W img"
  by (simp add: detect_text_def)

lemma detect_text_both_no_reader:
  "ocr_engine W = ''both'' \<Longrightarrow> easyocr_reader W = None \<Longrightarrow>
   detect_text W img = detect_text_tesseract W img"
  by (simp add: detect_text_def)

lemma demo_tesseract:
  "fst (detect_text_tesseract demo_tesseract_only 0) =
     [\<lparr>det_text = ''Docs'', det_bbox = (5, 6, 35, 16), det_confidence = 91 / 100,
       det_engine = ''tesseract''\<rparr>]"
  by (simp add: detect_text_tesseract_def demo_tesseract_only_def demo_detector_def
      py_strip_def py_isspace_def)

lemma demo_easyocr_nonempty: "fst (detect_text_easyocr demo_detector 0) \<noteq> []"
  by (simp add: detect_text_easyocr_def demo_detector_def)

text \<open>
  C3. With the detector configured for \<open>both\<close>: a non-empty result of the primary
  engine (EasyOCR) is what \<open>detect_text\<close> returns; the secondary engine (Tesseract) is
  called only where the primary engine yields no detection, and then its detections are
  returned; the primary engine is called, alone, whenever its reader exists. There are
  inputs on which the primary engine yields nothing and the detections of the secondary
  engine are returned.
\<close>

theorem C3_both_engines:
  "(ocr_engine W = ''both'' \<longrightarrow>
      (fst (detect_text_easyocr W img) \<noteq> [] \<longrightarrow> detect_text W img = detect_text_easyocr W img) \<and>
      (TesseractCall img \<in> set (snd (detect_text W img)) \<longrightarrow>
         fst (detect_text_easyocr W img) = [] \<and> detect_text W img = detect_text_tesseract W img) \<and>
      snd (detect_text W img) =
        (if easyocr_reader W \<noteq> None then [EasyOcrCall img]
         else if tesseract_available W then [TesseractCall img] else [])) \<and>
   (\<exists>(W' :: nat world) img'. ocr_engine W' = ''both'' \<and>
        fst (detect_text_easyocr W' img') = [] \<and>
        detect_text W' img' = detect_text_tesseract W' img' \<and>
        fst (detect_text W' img') \<noteq> [])"
proof (intro conjI impI)
  assume b: "ocr_engine W = ''both''"
  show "detect_text W img = detect_text_easyocr W img"
    if "fst (detect_text_easyocr W img) \<noteq> []"
  proof (cases "easyocr_reader W")
    case None
    with that show ?thesis by (simp add: detect_text_easyocr_def)
  next
    case (Some r)
    with b show ?thesis by (rule detect_text_both_reader)
  qed
  show "fst (detect_text_easyocr W img) = []"
    if "TesseractCall img \<in> set (snd (detect_text W img))"
  proof (cases "easyocr_reader W")
    case None
    then show ?thesis by (simp add: detect_text_easyocr_def)
  next
    case (Some r)
    with b that show ?thesis
      by (simp add: detect_text_both_reader detect_text_easyocr_def)
  qed
  show "detect_text W img = detect_text_tesseract W img"
    if "TesseractCall img \<in> set (snd (detect_text W img))"
  proof (cases "easyocr_reader W")
    case None
    with b show ?thesis by (rule detect_text_both_no_reader)
  next
    case (Some r)
    with b that show ?thesis
      by (simp add: detect_text_both_reader detect_text_easyocr_def)
  qed
  show "snd (detect_text W img) =
        (if easyocr_reader W \<noteq> None then [EasyOcrCall img]
         else if tesseract_available W then [TesseractCall img] else [])"
    using b
    by (auto simp: detect_text_def detect_text_easyocr_def detect_text_tesseract_def)
next
  have 1: "ocr_engine demo_tesseract_only = ''both''"
    by (simp add: demo_tesseract_only_def demo_detector_def)
  have 2: "easyocr_reader demo_tesseract_only = None"
    by (simp add: demo_tesseract_only_def)
  have 3: "fst (detect_text_easyocr demo_tesseract_only 0) = []"
    using 2 by (simp add: detect_text_easyocr_def)
  have 4: "detect_text demo_tesseract_only 0 = detect_text_tesseract demo_tesseract_only 0"
    using 1 2 by (rule detect_text_both_no_reader)
  have 5: "fst (detect_text demo_tesseract_only 0) \<noteq> []"
    unfolding 4 demo_tesseract by simp
  show "\<exists>(W' :: nat world) img'. ocr_engine W' = ''both'' \<and>
        fst (detect_text_easyocr W' img') = [] \<and>
        detect_text W' img' = detect_text_tesseract W' img' \<and>
        fst (detect_text W' img') \<noteq> []"
    using 1 3 4 5 by blast
qed

theorem C3_both_engines_witness:
  "ocr_engine demo_detector = ''both'' \<and> fst (detect_text_easyocr demo_detector 0) \<noteq> [] \<and>
   detect_text demo_detector 0 = detect_text_easyocr demo_detector 0"
proof -
  have b: "ocr_engine demo_detector = ''both''" by (simp add: demo_detector_def)
  from C3_both_engines [of demo_detector 0] b demo_easyocr_nonempty show ?thesis by blast
qed

text \<open>
  C6. The string \<open>extract_visible_text\<close> returns is the texts, joined by single
  spaces, of a list \<open>ys\<close> that holds exactly the detections whose confidence is not below
  the threshold (each as often as it was detected) and in which the top coordinate
  never decreases from one detection to the next.
\<close>

theorem C6_extract_visible_text:
  "\<exists>ys. fst (extract_visible_text W img thr) = py_join '' '' (map det_text ys) \<and>
        mset ys = mset (filter (\<lambda>d. \<not> det_confidence d < thr) (fst (detect_text W img))) \<and>
        (\<forall>i. Suc i < length ys \<longrightarrow> bbox_y1 (ys ! i) \<le> bbox_y1 (ys ! Suc i))"
proof -
  define ys where
    "ys = sort_key bbox_y1 (filter (\<lambda>d. thr \<le> det_confidence d) (fst (detect_text W img)))"
  have 1: "fst (extract_visible_text W img thr) = py_join '' '' (map det_text ys)"
    by (simp add: extract_visible_text_def ys_def split: prod.splits)
  have 2: "mset ys = mset (filter (\<lambda>d. \<not> det_confidence d < thr) (fst (detect_text W img)))"
    by (simp add: ys_def not_less)
  have "sorted (map bbox_y1 ys)" by (simp add: ys_def)
  then have 3: "\<forall>i. Suc i < length ys \<longrightarrow> bbox_y1 (ys ! i) \<le> bbox_y1 (ys ! Suc i)"
    by (simp add: sorted_iff_nth_Suc)
  from 1 2 3 show ?thesis by blast
qed

lemma demo_visible_text: "fst (extract_visible_text demo_detector 0 (1 / 2)) = ''hello world''"
  by (simp add: extract_visible_text_def bbox_y1_def demo_detect_text)

theorem C6_extract_visible_text_witness:
  "\<exists>ys. ''hello world'' = py_join '' '' (map det_text ys) \<and>
        mset ys = mset (filter (\<lambda>d. \<not> det_confidence d < 1 / 2)
                          (fst (detect_text demo_detector 0))) \<and>
        (\<forall>i. Suc i < length ys \<longrightarrow> bbox_y1 (ys ! i) \<le> bbox_y1 (ys ! Suc i))"
  using C6_extract_visible_text [of demo_detector 0 "1 / 2"] unfolding demo_visible_text .

section \<open>Properties of the tab extraction\<close>

lemma stage_b_accept_after:
  "p \<in> set (stage_b_accept dets last_x) \<Longrightarrow> snd p - last_x > 30"
proof (induction dets arbitrary: last_x)
  case Nil
  then show ?case by simp
next
  case (Cons det dets)
  show ?case
  proof (cases "stage_b_accept (det # dets) last_x = stage_b_accept dets last_x")
    case True
    with Cons show ?thesis by simp
  next
    case False
    then have acc: "stage_b_accept (det # dets) last_x =
        (py_strip (det_text det), bbox_x1 det) # stage_b_accept dets (bbox_x1 det)"
      and gap: "bbox_x1 det - last_x > 30"
      by (auto simp: Let_def split: if_splits)
    from Cons.prems acc
    consider "p = (py_strip (det_text det), bbox_x1 det)"
      | "p \<in> set (stage_b_accept dets (bbox_x1 det))" by auto
    then show ?thesis
    proof cases
      case 1
      with gap show ?thesis by simp
    next
      case 2
      from Cons.IH [OF 2] gap show ?thesis by simp
    qed
  qed
qed

lemma stage_b_accept_spaced:
  "sorted_wrt (\<lambda>a b. snd b - snd a > 30) (stage_b_accept dets last_x)"
proof (induction dets arbitrary: last_x)
  case Nil
  then show ?case by simp
next
  case (Cons det dets)
  show ?case
    using Cons.IH [of last_x] Cons.IH [of "bbox_x1 det"]
      stage_b_accept_after [of _ dets "bbox_x1 det"]
    by (auto simp: Let_def)
qed

lemma stage_b_accept_source:
  "p \<in> set (stage_b_accept dets last_x) \<Longrightarrow>
   \<exists>det \<in> set dets. p = (py_strip (det_text det), bbox_x1 det)"
  by (induction dets arbitrary: last_x) (auto simp: Let_def split: if_splits)

lemma stage_b_Inr:
  assumes "fst (stage_b W hwnd screenshot debug) = Inr accepted"
  shows "\<exists>width tab_region.
           window_width W hwnd = Inr width \<and>
           img_crop W screenshot (stage_b_region width) = Some tab_region \<and>
           accepted = stage_b_accept (sort_key bbox_x1 (fst (detect_text W tab_region))) (- 100)"
  using assms
  by (auto simp: stage_b_def ocr_region_def split: sum.splits prod.splits option.splits if_splits)

text \<open>
  C5. Any two candidates Stage B accepts are more than 30 pixels apart: a candidate
  accepted later has an x-position more than 30 above that of every candidate accepted
  before it. The candidates are stripped texts and left edges of detections on the
  Stage B crop.
\<close>

theorem C5_stage_b_spacing:
  assumes "fst (stage_b W hwnd screenshot debug) = Inr accepted"
    and "i < j" and "j < length accepted"
  shows "snd (accepted ! j) - snd (accepted ! i) > 30 \<and>
         \<bar>snd (accepted ! i) - snd (accepted ! j)\<bar> > 30 \<and>
         (\<exists>width tab_region. window_width W hwnd = Inr width \<and>
            img_crop W screenshot (stage_b_region width) = Some tab_region \<and>
            (\<exists>di \<in> set (fst (detect_text W tab_region)).
               accepted ! i = (py_strip (det_text di), bbox_x1 di)) \<and>
            (\<exists>dj \<in> set (fst (detect_text W tab_region)).
               accepted ! j = (py_strip (det_text dj), bbox_x1 dj)))"
proof -
  from stage_b_Inr [OF assms(1)] obtain width tab_region where
    w: "window_width W hwnd = Inr width" and
    c: "img_crop W screenshot (stage_b_region width) = Some tab_region" and
    a: "accepted = stage_b_accept (sort_key bbox_x1 (fst (detect_text W tab_region))) (- 100)"
    by blast
  have "sorted_wrt (\<lambda>a b. snd b - snd a > 30) accepted"
    unfolding a by (rule stage_b_accept_spaced)
  with assms(2,3) have gap: "snd (accepted ! j) - snd (accepted ! i) > 30"
    by (simp add: sorted_wrt_iff_nth_less)
  have mem: "accepted ! k \<in> set accepted" if "k < length accepted" for k
    using that by simp
  have src: "\<exists>d \<in> set (fst (detect_text W tab_region)).
               accepted ! k = (py_strip (det_text d), bbox_x1 d)" if "k < length accepted" for k
    using stage_b_accept_source [of "accepted ! k" "sort_key bbox_x1 (fst (detect_text W tab_region))" "- 100"]
      mem [OF that] a by auto
  from assms(2,3) have "i < length accepted" by simp
  with src [of i] src [of j] assms(3) gap w c show ?thesis by auto
qed

lemma demo_window_width: "window_width demo_desktop 101 = Inr 1200"
  by (simp add: window_width_def get_window_info_def lookup_window_def demo_desktop_def)

lemma demo_detect_2:
  "detect_text demo_desktop 2 =
     ([\<lparr>det_text = ''Calendar'', det_bbox = (200, 10, 280, 30), det_confidence = 9 / 10,
        det_engine = ''easyocr''\<rparr>,
       \<lparr>det_text = '' Inbox'', det_bbox = (10, 10, 60, 30), det_confidence = 9 / 10,
        det_engine = ''easyocr''\<rparr>,
       \<lparr>det_text = ''Inbox'', det_bbox = (25, 10, 75, 30), det_confidence = 7 / 10,
        det_engine = ''easyocr''\<rparr>],
      [EasyOcrCall 2])"
  by (simp add: detect_text_def detect_text_easyocr_def demo_desktop_def py_int_def)

lemma demo_ocr_region_b:
  "ocr_region demo_desktop 0 (stage_b_region 1200) True ''debug_tab_region.png'' =
     (Inr [\<lparr>det_text = '' Inbox'', det_bbox = (10, 10, 60, 30), det_confidence = 9 / 10,
        det_engine = ''easyocr''\<rparr>,
       \<lparr>det_text = ''Inbox'', det_bbox = (25, 10, 75, 30), det_confidence = 7 / 10,
        det_engine = ''easyocr''\<rparr>,
       \<lparr>det_text = ''Calendar'', det_bbox = (200, 10, 280, 30), det_confidence = 9 / 10,
        det_engine = ''easyocr''\<rparr>],
      [CropCall 0 (50, 0, 1000, 40), SaveCall 2 ''debug_tab_region.png'', EasyOcrCall 2])"
proof -
  have c: "img_crop demo_desktop 0 (50, 0, 1000, 40) = Some 2"
    by (simp add: demo_desktop_def)
  have s: "img_save demo_desktop 2 p" for p by (simp add: demo_desktop_def)
  show ?thesis
    by (simp add: ocr_region_def c s demo_detect_2 bbox_x1_def stage_b_region_def)
qed

lemma demo_stage_b:
  "stage_b demo_desktop 101 0 True =
     (Inr [(''Inbox'', 10), (''Calendar'', 200)],
      [CropCall 0 (50, 0, 1000, 40), SaveCall 2 ''debug_tab_region.png'', EasyOcrCall 2])"
  by (simp add: stage_b_def demo_window_width demo_ocr_region_b py_strip_def py_isspace_def
      bbox_x1_def stop_list_def startswith_def)

theorem C5_stage_b_spacing_witness:
  "fst (stage_b demo_desktop 101 0 True) = Inr [(''Inbox'', 10), (''Calendar'', 200)] \<and>
   snd ([(''Inbox'', 10), (''Calendar'', 200 :: int)] ! 1) - snd ([(''Inbox'', 10), (''Calendar'', 200 :: int)] ! 0) > 30"
proof -
  have h: "fst (stage_b demo_desktop 101 0 True) = Inr [(''Inbox'', 10), (''Calendar'', 200)]"
    by (simp add: demo_stage_b)
  have "(0::nat) < 1" and "1 < length [(''Inbox'', 10::int), (''Calendar'', 200)]" by simp_all
  from C5_stage_b_spacing [OF h this] h show ?thesis by blast
qed

lemma ocr_region_events:
  "e \<in> set (snd (ocr_region W screenshot region debug path)) \<Longrightarrow>
   e = CropCall screenshot region \<or> (\<forall>s b. e \<noteq> CropCall s b)"
  by (auto simp: ocr_region_def detect_text_def detect_text_easyocr_def detect_text_tesseract_def
      split: option.splits if_splits prod.splits)

lemma ocr_region_crop:
  "CropCall screenshot region \<in> set (snd (ocr_region W screenshot region debug path))"
  by (auto simp: ocr_region_def split: option.splits prod.splits)

lemma stage_b_no_stage_c_crop:
  "CropCall screenshot (stage_c_region w) \<notin> set (snd (stage_b W hwnd screenshot debug))"
proof (cases "window_width W hwnd")
  case (Inl e)
  then show ?thesis by (simp add: stage_b_def)
next
  case (Inr width)
  have ne: "stage_c_region w \<noteq> stage_b_region width"
    by (simp add: stage_c_region_def stage_b_region_def)
  have "snd (stage_b W hwnd screenshot debug) =
        snd (ocr_region W screenshot (stage_b_region width) debug ''debug_tab_region.png'')"
    using Inr by (simp add: stage_b_def split: prod.splits sum.splits)
  with ocr_region_events [of "CropCall screenshot (stage_c_region w)" W screenshot
      "stage_b_region width" debug "''debug_tab_region.png''"] ne
  show ?thesis by auto
qed

lemma stage_c_crop:
  "CropCall screenshot (stage_c_region width) \<in> set (snd (stage_c W width screenshot debug))"
proof -
  have "snd (stage_c W width screenshot debug) =
        snd (ocr_region W screenshot (stage_c_region width) debug ''debug_tab_region_alt.png'')"
    by (simp add: stage_c_def split: prod.splits sum.splits)
  then show ?thesis by (simp add: ocr_region_crop)
qed

lemma stage_b_width:
  "fst (stage_b W hwnd screenshot debug) = Inr accepted \<Longrightarrow> \<exists>width. window_width W hwnd = Inr width"
  by (auto simp: stage_b_def split: sum.splits)

lemma extract_tabs_stage_b_failed:
  "fst (stage_b W hwnd screenshot debug) = Inl e \<Longrightarrow>
   extract_tabs_with_ocr W hwnd screenshot debug = ([], snd (stage_b W hwnd screenshot debug))"
  by (auto simp: extract_tabs_with_ocr_def split: prod.splits sum.splits)

lemma extract_tabs_stage_b_some:
  "fst (stage_b W hwnd screenshot debug) = Inr accepted \<Longrightarrow> accepted \<noteq> [] \<Longrightarrow>
   extract_tabs_with_ocr W hwnd screenshot debug =
     (take 15 (map fst accepted), snd (stage_b W hwnd screenshot debug))"
  by (auto simp: extract_tabs_with_ocr_def split: prod.splits sum.splits)

lemma extract_tabs_stage_b_none:
  "fst (stage_b W hwnd screenshot debug) = Inr [] \<Longrightarrow> window_width W hwnd = Inr width \<Longrightarrow>
   extract_tabs_with_ocr W hwnd screenshot debug =
     ((case fst (stage_c W width screenshot debug) of Inl e \<Rightarrow> [] | Inr tabs \<Rightarrow> take 15 tabs),
      snd (stage_b W hwnd screenshot debug) @ snd (stage_c W width screenshot debug))"
  by (auto simp: extract_tabs_with_ocr_def split: prod.splits sum.splits)

text \<open>
  C4. Stage C is invoked exactly when Stage B produced zero accepted tabs: the crop of
  the Stage C region is among the calls of \<open>_extract_tabs_with_ocr\<close> if and only if
  Stage B ran to its end with no accepted candidate, and then the calls of Stage C follow
  those of Stage B. When Stage B accepts a tab (or ends in an exception, which returns
  the empty list at once) nothing is called after Stage B: no crop, no OCR pass.
\<close>

theorem C4_stage_c_iff_stage_b_empty:
  "((\<exists>w. CropCall screenshot (stage_c_region w)
           \<in> set (snd (extract_tabs_with_ocr W hwnd screenshot debug)))
      = (fst (stage_b W hwnd screenshot debug) = Inr [])) \<and>
   (fst (stage_b W hwnd screenshot debug) = Inr [] \<longrightarrow>
      (\<exists>width. window_width W hwnd = Inr width \<and>
         snd (extract_tabs_with_ocr W hwnd screenshot debug) =
           snd (stage_b W hwnd screenshot debug) @ snd (stage_c W width screenshot debug))) \<and>
   (fst (stage_b W hwnd screenshot debug) \<noteq> Inr [] \<longrightarrow>
      snd (extract_tabs_with_ocr W hwnd screenshot debug) = snd (stage_b W hwnd screenshot debug))"
proof (cases "fst (stage_b W hwnd screenshot debug)")
  case (Inl e)
  from extract_tabs_stage_b_failed [OF Inl] Inl stage_b_no_stage_c_crop [of screenshot _ W hwnd debug]
  show ?thesis by simp
next
  case (Inr accepted)
  show ?thesis
  proof (cases "accepted = []")
    case True
    with Inr have e: "fst (stage_b W hwnd screenshot debug) = Inr []" by simp
    from stage_b_width [OF e] obtain width where w: "window_width W hwnd = Inr width" by blast
    note x = extract_tabs_stage_b_none [OF e w]
    have "CropCall screenshot (stage_c_region width)
            \<in> set (snd (extract_tabs_with_ocr W hwnd screenshot debug))"
      unfolding x using stage_c_crop [of screenshot width W debug] by simp
    with e w x show ?thesis by auto
  next
    case False
    from extract_tabs_stage_b_some [OF Inr False] Inr False
      stage_b_no_stage_c_crop [of screenshot _ W hwnd debug]
    show ?thesis by simp
  qed
qed

lemma demo_stage_b_empty:
  "stage_b demo_desktop 101 10 True =
     (Inr [], [CropCall 10 (50, 0, 1000, 40), SaveCall 12 ''debug_tab_region.png'',
               EasyOcrCall 12])"
proof -
  have w: "window_width demo_desktop 101 = Inr 1200"
    by (simp add: window_width_def get_window_info_def lookup_window_def demo_desktop_def)
  have c: "img_crop demo_desktop 10 (50, 0, 1000, 40) = Some 12"
    by (simp add: demo_desktop_def)
  have s: "img_save demo_desktop 12 p" for p by (simp add: demo_desktop_def)
  have d: "detect_text demo_desktop 12 = ([], [EasyOcrCall 12])"
    by (simp add: detect_text_def detect_text_easyocr_def demo_desktop_def)
  show ?thesis
    by (simp add: stage_b_def w ocr_region_def stage_b_region_def c s d)
qed

theorem C4_stage_c_iff_stage_b_empty_witness:
  "fst (stage_b demo_desktop 101 10 True) = Inr [] \<and>
   (\<exists>w. CropCall 10 (stage_c_region w)
          \<in> set (snd (extract_tabs_with_ocr demo_desktop 101 10 True)))"
proof -
  have e: "fst (stage_b demo_desktop 101 10 True) = Inr []"
    by (simp add: demo_stage_b_empty)
  from C4_stage_c_iff_stage_b_empty [of 10 demo_desktop 101 True] e show ?thesis by blast
qed

section \<open>Properties of the accessibility tab search\<close>

lemma ui_automation_tabs_unsearched:
  "\<not> pywinauto_available W \<or> desktop W = None \<or> (\<exists>f. desktop W = Some f \<and> f hwnd = None) \<Longrightarrow>
   fst (ui_automation_tabs W hwnd) = []"
  by (auto simp: ui_automation_tabs_def)

text \<open>
  C2, as the code has it. \<open>get_browser_tabs\<close> returns the OCR flag instead of an empty
  list exactly when the accessibility search collected no tab (because the tree could
  not be searched, or because it was searched and yielded none), a screenshot was passed,
  and the lookup of the window rectangle and the crop of the tab strip succeed; in every
  other case it returns the tabs collected from the tree. A tree that cannot be searched
  yields no tab.
\<close>

theorem C2_get_browser_tabs_fallback:
  "fst (get_browser_tabs W hwnd screenshot) =
     (if fst (ui_automation_tabs W hwnd) = [] \<and>
         (\<exists>shot left upper right bottom.
            screenshot = Some shot \<and>
            GetWindowRect W hwnd = Some (left, upper, right, bottom) \<and>
            img_crop W shot (0, 0, right - left, 80) \<noteq> None)
      then USE_OCR
      else fst (ui_automation_tabs W hwnd)) \<and>
   ((\<not> pywinauto_available W \<or> desktop W = None \<or> (\<exists>f. desktop W = Some f \<and> f hwnd = None))
      \<longrightarrow> fst (ui_automation_tabs W hwnd) = [])"
proof (intro conjI impI)
  show "fst (get_browser_tabs W hwnd screenshot) =
     (if fst (ui_automation_tabs W hwnd) = [] \<and>
         (\<exists>shot left upper right bottom.
            screenshot = Some shot \<and>
            GetWindowRect W hwnd = Some (left, upper, right, bottom) \<and>
            img_crop W shot (0, 0, right - left, 80) \<noteq> None)
      then USE_OCR
      else fst (ui_automation_tabs W hwnd))"
  proof (cases "ui_automation_tabs W hwnd")
    case (Pair tabs tr)
    show ?thesis
    proof (cases screenshot)
      case None
      with Pair show ?thesis by (simp add: get_browser_tabs_def)
    next
      case (Some shot)
      show ?thesis
      proof (cases "GetWindowRect W hwnd")
        case None
        with Pair Some show ?thesis by (simp add: get_browser_tabs_def)
      next
        case rect: (Some r)
        obtain left upper right bottom where r: "r = (left, upper, right, bottom)"
          by (cases r) auto
        show ?thesis
          using Pair Some rect r
          by (cases "img_crop W shot (0, 0, right - left, 80)")
             (simp_all add: get_browser_tabs_def)
      qed
    qed
  qed
next
  assume "\<not> pywinauto_available W \<or> desktop W = None \<or> (\<exists>f. desktop W = Some f \<and> f hwnd = None)"
  then show "fst (ui_automation_tabs W hwnd) = []"
    by (rule ui_automation_tabs_unsearched)
qed

lemma demo_search_tabs: "search_tabs demo_tree 0 [] = []"
  by code_simp

lemma demo_ui_automation_tabs:
  "ui_automation_tabs demo_desktop 101 = ([], [AxWindowCall 101])"
  by (simp add: ui_automation_tabs_def demo_desktop_def demo_search_tabs)

lemma demo_rect: "GetWindowRect demo_desktop 101 = Some (0, 0, 1200, 800)"
  by (simp add: GetWindowRect_def lookup_window_def demo_desktop_def)

lemma demo_tab_strip: "img_crop demo_desktop 0 (0, 0, 1200, 80) = Some 4"
  by (simp add: demo_desktop_def)

theorem C2_get_browser_tabs_fallback_witness:
  "fst (ui_automation_tabs demo_desktop 101) = [] \<and>
   fst (get_browser_tabs demo_desktop 101 (Some 0)) = USE_OCR"
proof -
  have a: "fst (ui_automation_tabs demo_desktop 101) = []"
    by (simp add: demo_ui_automation_tabs)
  have b: "\<exists>shot left upper right bottom.
            Some (0::nat) = Some shot \<and>
            GetWindowRect demo_desktop 101 = Some (left, upper, right, bottom) \<and>
            img_crop demo_desktop shot (0, 0, right - left, 80) \<noteq> None"
    using demo_rect demo_tab_strip by auto
  from C2_get_browser_tabs_fallback [of demo_desktop 101 "Some 0"] a b
  show ?thesis by presburger
qed

text \<open>
  C2 as stated fails: the tree of window 101 is searched and holds no tab item, a
  screenshot is passed, and the result is the OCR flag, not the empty list.
\<close>

theorem C2_searched_tree_counterexample:
  "pywinauto_available demo_desktop \<and>
   desktop demo_desktop \<noteq> None \<and>
   the (desktop demo_desktop) 101 = Some demo_tree \<and>
   search_tabs demo_tree 0 [] = [] \<and>
   fst (get_browser_tabs demo_desktop 101 (Some 0)) = [''__USE_OCR__''] \<and>
   fst (get_browser_tabs demo_desktop 101 (Some 0)) \<noteq> []"
  by (simp add: get_browser_tabs_def demo_ui_automation_tabs demo_rect demo_tab_strip
      USE_OCR_def demo_search_tabs)
     (simp add: demo_desktop_def)

section \<open>Properties of the window analysis\<close>

lemma find_window_callback_empty:
  "(find_window_callback s ws = []) =
   (\<forall>w \<in> set ws. w_visible w \<longrightarrow> \<not> py_in s (py_lower (w_title w)))"
  by (induction ws) auto

lemma find_window_None:
  "(find_window W ident = None) =
   (\<forall>w \<in> set (windows W). w_visible w \<longrightarrow> \<not> py_in (py_lower ident) (py_lower (w_title w)))"
  by (simp add: find_window_def find_window_callback_empty [symmetric] split: list.splits)

lemma get_all_windows_callback_titles:
  "w \<in> set ws \<Longrightarrow> w_visible w \<Longrightarrow> w_title w \<noteq> [] \<Longrightarrow> w_rect w \<noteq> None \<Longrightarrow>
   w_class w \<noteq> None \<Longrightarrow> w_title w \<in> set (map we_title (get_all_windows_callback ws))"
  by (induction ws) (auto split: option.splits)

text \<open>
  C7. When no visible window has a title that contains the identifier (compared in
  lower case, as \<open>find_window\<close> matches), \<open>analyze_window\<close> returns, without raising, the
  error dict whose \<open>available_windows\<close> are the titles of the windows
  \<open>get_all_windows\<close> lists, one for every visible, titled window of the registry whose
  rectangle and class can be read; and it makes no call to the pixel source, the
  recognition engines, the image library or the automation desktop.
\<close>

theorem C7_window_not_found:
  assumes "\<forall>w \<in> set (windows W).
             w_visible w \<longrightarrow> \<not> py_in (py_lower ident) (py_lower (w_title w))"
  shows "analyze_window W now ident cs dt ut =
           (Inr (empty_dict
                  \<lparr>r_error := Some (''Window '' @ [CHR 0x27] @ ident @ [CHR 0x27] @ '' not found''),
                   r_available_windows := Some (map we_title (get_all_windows W))\<rparr>),
            []) \<and>
         (\<forall>w \<in> set (windows W).
            w_visible w \<and> w_title w \<noteq> [] \<and> w_rect w \<noteq> None \<and> w_class w \<noteq> None \<longrightarrow>
            w_title w \<in> set (map we_title (get_all_windows W)))"
proof -
  from assms have "find_window W ident = None" by (simp add: find_window_None)
  then have "analyze_window W now ident cs dt ut =
           (Inr (empty_dict
                  \<lparr>r_error := Some (''Window '' @ [CHR 0x27] @ ident @ [CHR 0x27] @ '' not found''),
                   r_available_windows := Some (map we_title (get_all_windows W))\<rparr>),
            [])"
    by (simp add: analyze_window_def)
  moreover have "\<forall>w \<in> set (windows W).
            w_visible w \<and> w_title w \<noteq> [] \<and> w_rect w \<noteq> None \<and> w_class w \<noteq> None \<longrightarrow>
            w_title w \<in> set (map we_title (get_all_windows W))"
    unfolding get_all_windows_def using get_all_windows_callback_titles by blast
  ultimately show ?thesis by blast
qed

lemma demo_no_match:
  "\<forall>w \<in> set (windows demo_desktop).
     w_visible w \<longrightarrow> \<not> py_in (py_lower ''Zzzznonexistent'') (py_lower (w_title w))"
  by code_simp

lemma demo_titles:
  "map we_title (get_all_windows demo_desktop) =
     [''Docs - Browser'', ''Untitled - Notepad'', ''Minimized App'']"
  by (simp add: get_all_windows_def demo_desktop_def)

theorem C7_window_not_found_witness:
  "analyze_window demo_desktop 0 ''Zzzznonexistent'' True True False =
     (Inr (empty_dict
            \<lparr>r_error := Some (''Window '' @ [CHR 0x27] @ ''Zzzznonexistent'' @ [CHR 0x27]
                              @ '' not found''),
             r_available_windows :=
               Some [''Docs - Browser'', ''Untitled - Notepad'', ''Minimized App'']\<rparr>),
      [])"
  using C7_window_not_found [OF demo_no_match, of 0 True True False]
  unfolding demo_titles by blast

lemma ui_tree_step_fields:
  "r_screenshot_error (fst (ui_tree_step W hwnd ut result)) = r_screenshot_error result \<and>
   r_text_detections (fst (ui_tree_step W hwnd ut result)) = r_text_detections result \<and>
   r_extracted_text (fst (ui_tree_step W hwnd ut result)) = r_extracted_text result"
  by (simp add: ui_tree_step_def split: prod.splits)

lemma tabs_step_no_shot:
  "\<exists>r. fst (tabs_step W hwnd True (Some None) result) = Inr r \<and>
       r_screenshot_error r = r_screenshot_error result \<and>
       r_text_detections r = r_text_detections result \<and>
       r_extracted_text r = r_extracted_text result"
  by (simp add: tabs_step_def split: prod.splits)

lemma capture_step_failed:
  "fst (capture_window W hwnd) = None \<Longrightarrow>
   fst (capture_step W hwnd True dt result) =
     (Some None, result\<lparr>r_screenshot_error := Some ''Failed to capture window''\<rparr>)"
  by (auto simp: capture_step_def split: prod.splits option.splits)

text \<open>
  C8. When \<open>analyze_window\<close> is called with the capture requested on a window it finds,
  and \<open>capture_window\<close> returns no image, the call returns a result dict (it does not
  raise) in which \<open>screenshot_error\<close> is set and \<open>text_detections\<close> and
  \<open>extracted_text\<close> are absent.
\<close>

theorem C8_capture_failure:
  assumes "find_window W ident = Some hwnd" and "hwnd \<noteq> 0"
    and "fst (capture_window W hwnd) = None"
  shows "\<exists>r. fst (analyze_window W now ident True dt ut) = Inr r \<and>
           r_screenshot_error r = Some ''Failed to capture window'' \<and>
           r_text_detections r = None \<and> r_extracted_text r = None"
proof -
  define result0 :: "'a analysis" where
    "result0 = empty_dict\<lparr>r_window_info := Some (get_window_info W hwnd),
                          r_timestamp := Some now\<rparr>"
  define result1 where
    "result1 = result0\<lparr>r_screenshot_error := Some ''Failed to capture window''\<rparr>"
  define result2 where "result2 = fst (ui_tree_step W hwnd ut result1)"
  have c: "fst (capture_step W hwnd True dt result0) = (Some None, result1)"
    unfolding result1_def by (rule capture_step_failed [OF assms(3)])
  have a: "fst (analyze_window W now ident True dt ut) =
           fst (tabs_step W hwnd True (Some None) result2)"
    using assms(1,2) c
    by (auto simp: analyze_window_def result0_def result2_def split: prod.splits)
  have f1: "r_screenshot_error result1 = Some ''Failed to capture window''"
    and f2: "r_text_detections result1 = None" and f3: "r_extracted_text result1 = None"
    by (simp_all add: result1_def result0_def empty_dict_def)
  from ui_tree_step_fields [of W hwnd ut result1] f1 f2 f3
  have g: "r_screenshot_error result2 = Some ''Failed to capture window''"
    "r_text_detections result2 = None" "r_extracted_text result2 = None"
    by (simp_all add: result2_def)
  from tabs_step_no_shot [of W hwnd result2] a g show ?thesis by auto
qed

lemma demo_find_minimized: "find_window demo_desktop ''minimized'' = Some 103"
  by code_simp

lemma demo_capture_minimized: "fst (capture_window demo_desktop 103) = None"
  by (simp add: capture_window_def GetWindowRect_def lookup_window_def demo_desktop_def)

theorem C8_capture_failure_witness:
  "find_window demo_desktop ''minimized'' = Some 103 \<and>
   fst (capture_window demo_desktop 103) = None \<and>
   (\<exists>r. fst (analyze_window demo_desktop 0 ''minimized'' True True False) = Inr r \<and>
        r_screenshot_error r = Some ''Failed to capture window'' \<and>
        r_text_detections r = None \<and> r_extracted_text r = None)"
proof -
  have "(103::int) \<noteq> 0" by simp
  from C8_capture_failure [OF demo_find_minimized this demo_capture_minimized, of 0 True False]
    demo_find_minimized demo_capture_minimized
  show ?thesis by blast
qed

lemma capture_step_timestamp:
  "capture_step W hwnd cs dt (result\<lparr>r_timestamp := x\<rparr>) =
     (case capture_step W hwnd cs dt result of
        ((shot, r), tr) \<Rightarrow> ((shot, r\<lparr>r_timestamp := x\<rparr>), tr))"
  by (simp add: capture_step_def Let_def split: prod.splits option.splits)

lemma ui_tree_step_timestamp:
  "ui_tree_step W hwnd ut (result\<lparr>r_timestamp := x\<rparr>) =
     (case ui_tree_step W hwnd ut result of (r, tr) \<Rightarrow> (r\<lparr>r_timestamp := x\<rparr>, tr))"
  by (simp add: ui_tree_step_def split: prod.splits)

lemma tabs_step_timestamp:
  "tabs_step W hwnd cs shot (result\<lparr>r_timestamp := x\<rparr>) =
     (case tabs_step W hwnd cs shot result of
        (Inl e, tr) \<Rightarrow> (Inl e, tr)
      | (Inr r, tr) \<Rightarrow> (Inr (r\<lparr>r_timestamp := x\<rparr>), tr))"
  by (simp add: tabs_step_def split: prod.splits option.splits)

lemma analyze_window_found:
  assumes "find_window W ident = Some hwnd" and "hwnd \<noteq> 0"
  shows "analyze_window W t ident cs dt ut =
     (case capture_step W hwnd cs dt
             (empty_dict\<lparr>r_window_info := Some (get_window_info W hwnd)\<rparr>) of
        ((shot, r), tr1) \<Rightarrow>
          (case ui_tree_step W hwnd ut r of
             (r', tr2) \<Rightarrow>
               (case tabs_step W hwnd cs shot r' of
                  (Inl e, tr3) \<Rightarrow> (Inl e, tr1 @ tr2 @ tr3)
                | (Inr r'', tr3) \<Rightarrow> (Inr (r''\<lparr>r_timestamp := Some t\<rparr>), tr1 @ tr2 @ tr3))))"
  using assms
  by (simp add: analyze_window_def capture_step_timestamp ui_tree_step_timestamp
      tabs_step_timestamp split: prod.splits sum.splits)

lemma analyze_window_not_found:
  assumes "find_window W ident = None \<or> find_window W ident = Some 0"
  shows "analyze_window W t ident cs dt ut = analyze_window W t' ident cs dt ut"
  using assms by (auto simp: analyze_window_def)

lemma capture_step_error:
  "capture_step W hwnd cs dt result = ((shot, r), tr) \<Longrightarrow> r_error r = r_error result"
  by (auto simp: capture_step_def Let_def split: if_splits prod.splits option.splits)

lemma ui_tree_step_error:
  "ui_tree_step W hwnd ut result = (r, tr) \<Longrightarrow> r_error r = r_error result"
  by (auto simp: ui_tree_step_def split: if_splits prod.splits)

lemma tabs_step_error:
  "tabs_step W hwnd cs shot result = (Inr r, tr) \<Longrightarrow> r_error r = r_error result"
  by (auto simp: tabs_step_def split: if_splits prod.splits option.splits)

lemma analyze_window_found_shape:
  assumes "find_window W ident = Some hwnd" and "hwnd \<noteq> 0"
  shows "\<exists>res tr.
           (\<forall>t. analyze_window W t ident cs dt ut =
                  (case res of
                     Inl e \<Rightarrow> (Inl e, tr)
                   | Inr r \<Rightarrow> (Inr (r\<lparr>r_timestamp := Some t\<rparr>), tr))) \<and>
           (\<forall>r. res = Inr r \<longrightarrow> r_error r = None)"
proof -
  define base :: "'a analysis" where
    "base = empty_dict\<lparr>r_window_info := Some (get_window_info W hwnd)\<rparr>"
  obtain shot r1 tr1 where c: "capture_step W hwnd cs dt base = ((shot, r1), tr1)"
    by (metis prod.exhaust)
  obtain r2 tr2 where u: "ui_tree_step W hwnd ut r1 = (r2, tr2)"
    by (metis prod.exhaust)
  obtain res tr3 where b: "tabs_step W hwnd cs shot r2 = (res, tr3)"
    by (metis prod.exhaust)
  have e0: "r_error base = None" by (simp add: base_def empty_dict_def)
  from capture_step_error [OF c] e0 have e1: "r_error r1 = None" by simp
  from ui_tree_step_error [OF u] e1 have e2: "r_error r2 = None" by simp
  have e3: "r_error r = None" if "res = Inr r" for r
    using tabs_step_error [of W hwnd cs shot r2 r tr3] b that e2 by simp
  have "analyze_window W t ident cs dt ut =
          (case res of
             Inl e \<Rightarrow> (Inl e, tr1 @ tr2 @ tr3)
           | Inr r \<Rightarrow> (Inr (r\<lparr>r_timestamp := Some t\<rparr>), tr1 @ tr2 @ tr3))" for t
    unfolding analyze_window_found [OF assms]
    using c u b by (simp add: base_def split: sum.splits)
  with e3 show ?thesis by blast
qed

lemma get_window_summary_found:
  assumes "find_window W ident = Some hwnd" and "hwnd \<noteq> 0"
  shows "get_window_summary W t ident = get_window_summary W t' ident"
proof -
  from analyze_window_found_shape [OF assms, of True True False] obtain res tr where
    a: "\<And>t. analyze_window W t ident True True False =
              (case res of
                 Inl e \<Rightarrow> (Inl e, tr)
               | Inr r \<Rightarrow> (Inr (r\<lparr>r_timestamp := Some t\<rparr>), tr))" and
    e: "\<And>r. res = Inr r \<Longrightarrow> r_error r = None" by blast
  show ?thesis
  proof (cases res)
    case (Inl x)
    then show ?thesis by (simp add: get_window_summary_def a)
  next
    case (Inr r)
    with e [OF Inr] show ?thesis
      by (simp add: get_window_summary_def a split: option.splits info_result.splits)
  qed
qed

lemma analyze_window_modulo_timestamp:
  "map_sum id (\<lambda>r. r\<lparr>r_timestamp := None\<rparr>) (fst (analyze_window W t ident cs dt ut)) =
   map_sum id (\<lambda>r. r\<lparr>r_timestamp := None\<rparr>) (fst (analyze_window W t' ident cs dt ut)) \<and>
   snd (analyze_window W t ident cs dt ut) = snd (analyze_window W t' ident cs dt ut)"
proof (cases "find_window W ident = None \<or> find_window W ident = Some 0")
  case True
  then have "analyze_window W t ident cs dt ut = analyze_window W t' ident cs dt ut"
    by (rule analyze_window_not_found)
  then show ?thesis by simp
next
  case False
  then obtain hwnd where h: "find_window W ident = Some hwnd" "hwnd \<noteq> 0" by auto
  from analyze_window_found_shape [OF h, of cs dt ut] obtain res tr where
    a: "\<And>t. analyze_window W t ident cs dt ut =
              (case res of
                 Inl e \<Rightarrow> (Inl e, tr)
               | Inr r \<Rightarrow> (Inr (r\<lparr>r_timestamp := Some t\<rparr>), tr))" by blast
  show ?thesis by (cases res) (simp_all add: a)
qed

text \<open>
  C9. With the same world (the same answers of the window registry, the pixel source,
  the recognition engines and the accessibility tree), \<open>get_window_summary\<close> returns the
  same output and makes the same calls whatever the clock reads; the analyses under it
  are equal up to their \<open>timestamp\<close>.
\<close>

theorem C9_summary_idempotent:
  "get_window_summary W t1 ident = get_window_summary W t2 ident \<and>
   map_sum id (\<lambda>r. r\<lparr>r_timestamp := None\<rparr>) (fst (analyze_window W t1 ident True True False)) =
   map_sum id (\<lambda>r. r\<lparr>r_timestamp := None\<rparr>) (fst (analyze_window W t2 ident True True False)) \<and>
   snd (analyze_window W t1 ident True True False) =
   snd (analyze_window W t2 ident True True False)"
proof -
  have "get_window_summary W t1 ident = get_window_summary W t2 ident"
  proof (cases "find_window W ident = None \<or> find_window W ident = Some 0")
    case True
    then have "analyze_window W t1 ident True True False =
               analyze_window W t2 ident True True False"
      by (rule analyze_window_not_found)
    then show ?thesis by (simp add: get_window_summary_def)
  next
    case False
    then obtain hwnd where "find_window W ident = Some hwnd" "hwnd \<noteq> 0" by auto
    then show ?thesis by (rule get_window_summary_found)
  qed
  with analyze_window_modulo_timestamp [of W t1 ident True True False t2]
  show ?thesis by simp
qed

lemma demo_summary:
  "fst (get_window_summary demo_desktop 0 ''docs'') =
     Inr (Summary \<lparr>s_window_name = ''Docs - Browser'', s_application = ''chrome.exe'',
                   s_visible_text = [], s_browser_tabs = [''Inbox'', ''Calendar''],
                   s_is_active = True, s_position = (0, 0, 1200, 800)\<rparr>)"
  by code_simp

theorem C9_summary_idempotent_witness:
  "get_window_summary demo_desktop 0 ''docs'' = get_window_summary demo_desktop 1700000000 ''docs'' \<and>
   fst (get_window_summary demo_desktop 1700000000 ''docs'') =
     Inr (Summary \<lparr>s_window_name = ''Docs - Browser'', s_application = ''chrome.exe'',
                   s_visible_text = [], s_browser_tabs = [''Inbox'', ''Calendar''],
                   s_is_active = True, s_position = (0, 0, 1200, 800)\<rparr>)"
  using C9_summary_idempotent [of demo_desktop 0 "''docs''" 1700000000] demo_summary
  by metis

end
